theory Spec2Isabelle
  imports
    Main
    "HOL-Library.Sublist"
    "HOL-Library.Multiset"
    "HOL-Library.Char_ord"
    "HOL-Library.List_Lexorder"
begin

section \<open>Text, files and exceptions\<close>

text \<open>
  Python text is a \<^typ>\<open>string\<close>; a character outside ASCII stands as its UTF-8 bytes,
  whose bytewise order is the order of the code points. Files hold text with
  \<^verbatim>\<open>\n\<close> line ends, as text mode on POSIX reads and writes them. Printing to
  standard output is not part of the model.
\<close>

abbreviation NL :: char where
  "NL \<equiv> CHR 0x0A"

datatype error =
    ValueError string
  | KeyError string
  | NameError string
  | FileNotFoundError string
  | PermissionError string
  | IsADirectoryError string
  | NotADirectoryError string
  | Exception string

record regfile =
  content :: string
  readable :: bool
  writable :: bool

datatype node = RegFile regfile | Directory bool

text \<open>
  A file system maps a path to what lives there; \<open>Directory w\<close> is a directory in which
  entries can be created iff \<open>w\<close>.
\<close>

type_synonym fs = "string \<rightharpoonup> node"

text \<open>\<^verbatim>\<open>str.isspace\<close> on the ASCII range: tab, LF, VT, FF, CR, FS, GS, RS, US and space.\<close>

definition isspace :: "char \<Rightarrow> bool" where
  "isspace c = (c \<in> {CHR 0x09, CHR 0x0A, CHR 0x0B, CHR 0x0C, CHR 0x0D,
                     CHR 0x1C, CHR 0x1D, CHR 0x1E, CHR 0x1F, CHR 0x20})"

text \<open>\<^verbatim>\<open>s.strip(chars)\<close>: drop the characters satisfying \<open>P\<close> from both ends.\<close>

definition strip_chars :: "(char \<Rightarrow> bool) \<Rightarrow> string \<Rightarrow> string" where
  "strip_chars P s = rev (dropWhile P (rev (dropWhile P s)))"

definition strip :: "string \<Rightarrow> string" where
  "strip s = strip_chars isspace s"

text \<open>
  \<^verbatim>\<open>f.readlines()\<close> and \<^verbatim>\<open>for line in f\<close>: the lines of the text, each with its
  terminating newline; a last line without one is kept as it is.
\<close>

fun lines_acc :: "string \<Rightarrow> string \<Rightarrow> string list" where
  "lines_acc acc [] = (if acc = [] then [] else [acc])"
| "lines_acc acc (c # cs) =
     (if c = NL then (acc @ [c]) # lines_acc [] cs else lines_acc (acc @ [c]) cs)"

definition readlines :: "string \<Rightarrow> string list" where
  "readlines s = lines_acc [] s"

text \<open>\<^verbatim>\<open>open(path)\<close> for reading, followed by reading the whole text.\<close>

definition open_read :: "fs \<Rightarrow> string \<Rightarrow> error + string" where
  "open_read fsys p =
     (case fsys p of
        None \<Rightarrow> Inl (FileNotFoundError p)
      | Some (Directory w) \<Rightarrow> Inl (IsADirectoryError p)
      | Some (RegFile f) \<Rightarrow> if readable f then Inr (content f) else Inl (PermissionError p))"

text \<open>
  \<^verbatim>\<open>xs[i:j]\<close>: a negative bound counts from the end of the list, and every bound is
  clamped into \<open>0..len(xs)\<close>.
\<close>

definition slice_bound :: "nat \<Rightarrow> int \<Rightarrow> nat" where
  "slice_bound n k = (if k < 0 then nat (max (int n + k) 0) else min (nat k) n)"

definition py_slice :: "'a list \<Rightarrow> int \<Rightarrow> int \<Rightarrow> 'a list" where
  "py_slice xs i j =
     (let a = slice_bound (length xs) i; b = slice_bound (length xs) j
      in take (b - a) (drop a xs))"

section \<open>TestGenerator.get_context_window\<close>

text \<open>
  \<^verbatim>\<open>
  def get_context_window(file_path, target_lines, window_size=10):
      with open(file_path) as f:
          lines = f.readlines()
      start = max(0, target_lines[0] - window_size)
      end = min(len(lines), target_lines[1] + window_size)
      return ''.join(lines[start:end])
  \<close>
\<close>

definition get_context_window :: "fs \<Rightarrow> string \<Rightarrow> int \<times> int \<Rightarrow> int \<Rightarrow> error + string" where
  "get_context_window fsys file_path target_lines window_size =
     (case open_read fsys file_path of
        Inl e \<Rightarrow> Inl e
      | Inr text \<Rightarrow>
          (let lines = readlines text;
               start = max 0 (fst target_lines - window_size);
               end' = min (int (length lines)) (snd target_lines + window_size)
           in Inr (concat (py_slice lines start end'))))"

text \<open>
  The window as the specification words it: the lines whose 0-based index \<open>i\<close> satisfies
  \<open>a \<le> i < b\<close>, the bounds being integers.
\<close>

definition window_lines :: "'a list \<Rightarrow> int \<Rightarrow> int \<Rightarrow> 'a list" where
  "window_lines xs a b = map (\<lambda>i. xs ! i) (filter (\<lambda>i. a \<le> int i \<and> int i < b) [0..<length xs])"

text \<open>A file of three lines, for the examples.\<close>

definition demo_fs :: fs where
  "demo_fs = [''f.py'' \<mapsto> RegFile \<lparr>content = ''a'' @ [NL] @ ''b'' @ [NL] @ ''c'' @ [NL],
                                     readable = True, writable = True\<rparr>]"

section \<open>inject_tests\<close>

text \<open>\<^verbatim>\<open>sub in s\<close> on strings: \<open>sub\<close> occurs in \<open>s\<close> as a contiguous run.\<close>

fun str_in :: "string \<Rightarrow> string \<Rightarrow> bool" where
  "str_in sub [] = (sub = [])"
| "str_in sub (c # cs) = (prefix sub (c # cs) \<or> str_in sub cs)"

text \<open>\<^verbatim>\<open>os.path.dirname\<close>: the path up to its last slash, trailing slashes dropped
  unless it consists of slashes only; the empty path stands for the current directory.\<close>

definition dirname :: "string \<Rightarrow> string" where
  "dirname p =
     (let head = rev (dropWhile (\<lambda>c. c \<noteq> CHR ''/'') (rev p))
      in if head \<noteq> [] \<and> \<not> list_all (\<lambda>c. c = CHR ''/'') head
         then rev (dropWhile (\<lambda>c. c = CHR ''/'') (rev head)) else head)"

text \<open>
  \<^verbatim>\<open>open(path, "a")\<close>: an existing regular file must be writable; a missing file is created
  empty when its directory exists and allows it.
\<close>

definition open_append :: "fs \<Rightarrow> string \<Rightarrow> error + regfile" where
  "open_append fsys p =
     (case fsys p of
        Some (RegFile f) \<Rightarrow> if writable f then Inr f else Inl (PermissionError p)
      | Some (Directory w) \<Rightarrow> Inl (IsADirectoryError p)
      | None \<Rightarrow>
          (case fsys (dirname p) of
             Some (Directory w) \<Rightarrow>
               if w then Inr \<lparr>content = [], readable = True, writable = True\<rparr>
               else Inl (PermissionError p)
           | Some (RegFile d) \<Rightarrow> Inl (NotADirectoryError p)
           | None \<Rightarrow> Inl (FileNotFoundError p)))"

definition sentinel :: string where
  "sentinel = ''# UTBoost Generated Tests''"

text \<open>
  A function body reads a global name in the globals of its module at the time of the call,
  then among the builtins; a name bound in neither raises \<^verbatim>\<open>NameError\<close>. Of a module's
  globals the model keeps the callables that build a path from a string; a path object is
  modelled by its string.
\<close>

type_synonym globals = "string \<rightharpoonup> (string \<Rightarrow> string)"

definition name_error :: "string \<Rightarrow> error" where
  "name_error name = NameError (''name '' @ [CHR 0x27] @ name @ [CHR 0x27] @ '' is not defined'')"

definition load_global :: "globals \<Rightarrow> string \<Rightarrow> error + (string \<Rightarrow> string)" where
  "load_global g name = (case g name of None \<Rightarrow> Inl (name_error name) | Some v \<Rightarrow> Inr v)"

text \<open>
  \<^verbatim>\<open>UTBoost_experiment/swe_bench_harness.py\<close> binds no \<^verbatim>\<open>Path\<close> at module level: its only
  \<^verbatim>\<open>from pathlib import Path\<close> is local to \<^verbatim>\<open>process_all_tasks\<close>. The snapshots
  \<^verbatim>\<open>swe_bench_harness_20250419213149.py\<close> and \<^verbatim>\<open>swe_bench_harness_20250419213236.py\<close> import
  nothing. \<^verbatim>\<open>Path\<close> is not a builtin.
\<close>

definition module_globals :: globals where
  "module_globals = Map.empty"

text \<open>\<^verbatim>\<open>f.write(data)\<close> on a file opened for append, and the store of the file when the
  \<^verbatim>\<open>with\<close> block closes it.\<close>

definition f_write :: "regfile \<Rightarrow> string \<Rightarrow> regfile" where
  "f_write f data = f\<lparr>content := content f @ data\<rparr>"

definition f_close :: "fs \<Rightarrow> string \<Rightarrow> regfile \<Rightarrow> fs" where
  "f_close fsys p f = fsys(p \<mapsto> RegFile f)"

text \<open>
  The function as \<^verbatim>\<open>UTBoost_experiment/swe_bench_harness.py\<close> has it (and its last snapshot,
  \<^verbatim>\<open>swe_bench_harness_20250419213236.py\<close>). The task instance is a dictionary from keys to
  strings. The result pairs what the call returns or raises with the file system it leaves.
  \<^verbatim>\<open>
  def inject_tests(task_instance, utboost_tests):
      test_file = Path(task_instance["test_file"])
      with open(test_file, "a") as f:
          f.write("\n\n# UTBoost Generated Tests\n")
          f.write(utboost_tests)
      return test_file
  \<close>
  The call \<^verbatim>\<open>Path(...)\<close> looks the name up before it evaluates the argument.
\<close>

definition inject_tests :: "fs \<Rightarrow> (string \<rightharpoonup> string) \<Rightarrow> string \<Rightarrow> (error + string) \<times> fs" where
  "inject_tests fsys task_instance utboost_tests =
     (case load_global module_globals ''Path'' of
        Inl e \<Rightarrow> (Inl e, fsys)
      | Inr Path \<Rightarrow>
          (case task_instance ''test_file'' of
             None \<Rightarrow> (Inl (KeyError ''test_file''), fsys)
           | Some name \<Rightarrow>
               (let test_file = Path name
                in case open_append fsys test_file of
                     Inl e \<Rightarrow> (Inl e, fsys)
                   | Inr f \<Rightarrow>
                       (let f1 = f_write f ([NL, NL] @ sentinel @ [NL]);
                            f2 = f_write f1 utboost_tests
                        in (Inr test_file, f_close fsys test_file f2)))))"

text \<open>
  The guarded version, snapshot \<^verbatim>\<open>swe_bench_harness_20250419213149.py\<close>:
  \<^verbatim>\<open>
  if not utboost_tests or not isinstance(utboost_tests, str):
      raise ValueError("utboost_tests must be a non-empty string")
  if not task_instance or "test_file" not in task_instance:
      raise ValueError("task_instance must contain 'test_file' key")
  test_file = Path(task_instance["test_file"])
  if not test_file.exists():
      raise FileNotFoundError(f"Test file not found: {test_file}")
  if not test_file.is_file():
      raise ValueError(f"Path is not a file: {test_file}")
  try:
      with open(test_file, "r") as f:
          existing_content = f.read()
      if "# UTBoost Generated Tests" in existing_content:
          return test_file
      separator = "\n" + "#" * 80 + "\n"
      formatted_tests = f"{separator}# UTBoost Generated Tests{separator}{utboost_tests.strip()}\n"
      with open(test_file, "a") as f:
          f.write(formatted_tests)
      return test_file
  except PermissionError:
      raise PermissionError(f"Permission denied when writing to {test_file}")
  except Exception as e:
      raise Exception(f"Error injecting tests: {str(e)}")
  \<close>
  The generated text is a string by its type, so the \<^verbatim>\<open>isinstance\<close> test holds. The
  lookup of \<^verbatim>\<open>Path\<close> stands before the \<^verbatim>\<open>try\<close>, so its error is not wrapped.
\<close>

definition separator :: string where
  "separator = [NL] @ replicate 80 (CHR ''#'') @ [NL]"

definition formatted_tests :: "string \<Rightarrow> string" where
  "formatted_tests utboost_tests = separator @ sentinel @ separator @ strip utboost_tests @ [NL]"

fun str_of_error :: "error \<Rightarrow> string" where
  "str_of_error (ValueError m) = m"
| "str_of_error (KeyError m) = m"
| "str_of_error (NameError m) = m"
| "str_of_error (FileNotFoundError m) = m"
| "str_of_error (PermissionError m) = m"
| "str_of_error (IsADirectoryError m) = m"
| "str_of_error (NotADirectoryError m) = m"
| "str_of_error (Exception m) = m"

fun reraise :: "string \<Rightarrow> error \<Rightarrow> error" where
  "reraise test_file (PermissionError m) =
     PermissionError (''Permission denied when writing to '' @ test_file)"
| "reraise test_file e = Exception (''Error injecting tests: '' @ str_of_error e)"

definition inject_tests_20250419213149 ::
    "fs \<Rightarrow> (string \<rightharpoonup> string) \<Rightarrow> string \<Rightarrow> (error + string) \<times> fs" where
  "inject_tests_20250419213149 fsys task_instance utboost_tests =
     (if utboost_tests = [] then
        (Inl (ValueError ''utboost_tests must be a non-empty string''), fsys)
      else case task_instance ''test_file'' of
        None \<Rightarrow>
          (Inl (ValueError (''task_instance must contain '' @ [CHR 0x27] @ ''test_file'' @
                            [CHR 0x27] @ '' key'')), fsys)
      | Some name \<Rightarrow>
          (case load_global module_globals ''Path'' of
             Inl e \<Rightarrow> (Inl e, fsys)
           | Inr Path \<Rightarrow>
               (let test_file = Path name
                in case fsys test_file of
                     None \<Rightarrow>
                       (Inl (FileNotFoundError (''Test file not found: '' @ test_file)), fsys)
                   | Some (Directory w) \<Rightarrow>
                       (Inl (ValueError (''Path is not a file: '' @ test_file)), fsys)
                   | Some (RegFile f0) \<Rightarrow>
                       (case open_read fsys test_file of
                          Inl e \<Rightarrow> (Inl (reraise test_file e), fsys)
                        | Inr existing_content \<Rightarrow>
                            if str_in sentinel existing_content then (Inr test_file, fsys)
                            else
                              (case open_append fsys test_file of
                                 Inl e \<Rightarrow> (Inl (reraise test_file e), fsys)
                               | Inr f \<Rightarrow>
                                   (Inr test_file,
                                    f_close fsys test_file
                                      (f_write f (formatted_tests utboost_tests))))))))"

text \<open>A writable file, a read-only file and a writable current directory, for the examples.\<close>

definition test_fs :: fs where
  "test_fs = [''t.py'' \<mapsto> RegFile \<lparr>content = ''x = 1'' @ [NL], readable = True, writable = True\<rparr>,
              ''ro.py'' \<mapsto> RegFile \<lparr>content = ''y = 2'' @ [NL], readable = True, writable = False\<rparr>,
              '''' \<mapsto> Directory True]"

definition task :: "string \<Rightarrow> (string \<rightharpoonup> string)" where
  "task p = [''test_file'' \<mapsto> p]"

section \<open>CodebaseAnalyzer.function_class_localization: code compression\<close>

text \<open>
  The regular expression class \<^verbatim>\<open>\w\<close> on ASCII text: letters, digits and the underscore.
  Text outside ASCII is not classified (a byte above 127 counts as neither a word character
  nor a space).
\<close>

definition isword :: "char \<Rightarrow> bool" where
  "isword c =
     (let n = (of_char c :: nat)
      in (48 \<le> n \<and> n \<le> 57) \<or> (65 \<le> n \<and> n \<le> 90) \<or> (97 \<le> n \<and> n \<le> 122) \<or> n = 95)"

text \<open>
  \<^verbatim>\<open>re.match(r'^(kw\s+\w+.*?:)', line)\<close> for the keyword \<open>kw\<close>: the line starts with the
  keyword, then at least one space character, then at least one word character, then the
  shortest run of characters other than newline that a colon follows. The result is group 1,
  the line up to that colon. No other split of the line matches where this one fails: a
  space is no word character, and what \<^verbatim>\<open>\w+\<close> gives back \<^verbatim>\<open>.*?\<close> takes.
\<close>

definition header_match :: "string \<Rightarrow> string \<Rightarrow> string option" where
  "header_match kw line =
     (if prefix kw line then
        (let r1 = drop (length kw) line;
             ws = takeWhile isspace r1; r2 = dropWhile isspace r1;
             w = takeWhile isword r2; r3 = dropWhile isword r2;
             pre = takeWhile (\<lambda>c. c \<noteq> CHR '':'' \<and> c \<noteq> NL) r3;
             r4 = dropWhile (\<lambda>c. c \<noteq> CHR '':'' \<and> c \<noteq> NL) r3
         in if ws \<noteq> [] \<and> w \<noteq> [] \<and> (case r4 of [] \<Rightarrow> False | c # cs \<Rightarrow> c = CHR '':'')
            then Some (kw @ ws @ w @ pre @ '':'') else None)
      else None)"

text \<open>\<^verbatim>\<open>re.match(r'^@\w+', line)\<close>: an at sign and a word character after it.\<close>

definition decorator_match :: "string \<Rightarrow> bool" where
  "decorator_match line =
     (case line of c # d # cs \<Rightarrow> c = CHR ''@'' \<and> isword d | _ \<Rightarrow> False)"

text \<open>
  The loop over the lines of one file:
  \<^verbatim>\<open>
  compressed = []
  in_class = False
  in_function = False
  for line in f:
      class_match = re.match(r'^(class\s+\w+.*?:)', line)
      func_match = re.match(r'^(def\s+\w+.*?:)', line)
      decorator_match = re.match(r'^@\w+', line)
      if decorator_match:
          compressed.append(line.strip())
      elif class_match:
          compressed.append(class_match.group(1))
          in_class = True
      elif func_match:
          compressed.append(func_match.group(1))
          in_function = True
      elif in_class and line.strip() == '':
          in_class = False
      elif in_function and line.strip() == '':
          in_function = False
  \<close>
\<close>

record scan =
  compressed :: "string list"
  in_class :: bool
  in_function :: bool

definition scan_line :: "scan \<Rightarrow> string \<Rightarrow> scan" where
  "scan_line st line =
     (if decorator_match line then st\<lparr>compressed := compressed st @ [strip line]\<rparr>
      else case header_match ''class'' line of
        Some g \<Rightarrow> st\<lparr>compressed := compressed st @ [g], in_class := True\<rparr>
      | None \<Rightarrow>
          (case header_match ''def'' line of
             Some g \<Rightarrow> st\<lparr>compressed := compressed st @ [g], in_function := True\<rparr>
           | None \<Rightarrow>
               if in_class st \<and> strip line = [] then st\<lparr>in_class := False\<rparr>
               else if in_function st \<and> strip line = [] then st\<lparr>in_function := False\<rparr>
               else st))"

definition compress_lines :: "string list \<Rightarrow> string list" where
  "compress_lines ls =
     compressed (foldl scan_line \<lparr>compressed = [], in_class = False, in_function = False\<rparr> ls)"

definition compress_file :: "string \<Rightarrow> string list" where
  "compress_file text = compress_lines (readlines text)"

text \<open>The source text of the specification's scenario B.\<close>

definition scenario_B :: string where
  "scenario_B = ''class Foo:'' @ [NL] @ ''    def bar():'' @ [NL] @ ''        pass'' @ [NL] @ [NL] @
                ''def baz():'' @ [NL] @ ''    return 1'' @ [NL]"

text \<open>A line that is empty or starts with a space or a tab.\<close>

definition indented :: "string \<Rightarrow> bool" where
  "indented l = (case l of [] \<Rightarrow> True | c # cs \<Rightarrow> c = CHR '' '' \<or> c = CHR 0x09)"

section \<open>ContextGenerator.extract_top_files\<close>

text \<open>\<^verbatim>\<open>s.split(c)\<close> for a one-character separator: the pieces between the separators, empty
  pieces included; a text without the separator is its own single piece.\<close>

fun split_on :: "char \<Rightarrow> string \<Rightarrow> string list" where
  "split_on c [] = [[]]"
| "split_on c (x # xs) =
     (if x = c then [] # split_on c xs
      else (case split_on c xs of [] \<Rightarrow> [[x]] | y # ys \<Rightarrow> (x # y) # ys))"

text \<open>
  \<^verbatim>\<open>
  def extract_top_files(self, llm_response):
      files = []
      for line in llm_response.split('\n'):
          if line.startswith('- '):
              file_path = line.split('(')[0].strip('- ').strip()
              files.append(file_path)
      return files
  \<close>
  \<open>file_path_of\<close> is the expression of the loop body: the line up to its first opening
  parenthesis, stripped of hyphens and spaces at both ends, then of white space.
\<close>

definition file_path_of :: "string \<Rightarrow> string" where
  "file_path_of line =
     strip (strip_chars (\<lambda>c. c = CHR ''-'' \<or> c = CHR '' '')
              (takeWhile (\<lambda>c. c \<noteq> CHR ''('') line))"

definition extract_top_files :: "string \<Rightarrow> string list" where
  "extract_top_files llm_response =
     map file_path_of (filter (prefix ''- '') (split_on NL llm_response))"

text \<open>\<^verbatim>\<open>'\n'.join(ls)\<close>, to speak of a response by its lines.\<close>

fun join_lines :: "string list \<Rightarrow> string" where
  "join_lines [] = []"
| "join_lines [l] = l"
| "join_lines (l # m # ls) = l @ [NL] @ join_lines (m # ls)"

text \<open>The response of the specification's scenario C, and one that names a file twice.\<close>

definition scenario_C :: string where
  "scenario_C = ''- foo.py (reason)'' @ [NL] @ ''- bar.py (reason)'' @ [NL]"

definition repeated_response :: string where
  "repeated_response = ''- a.py (first)'' @ [NL] @ ''- a.py (again)'' @ [NL]"

section \<open>CodebaseAnalyzer.file_level_localization: build_tree\<close>

text \<open>
  A repository snapshot. A directory is the list of its entries in the order in which
  \<^verbatim>\<open>os.listdir\<close> enumerates them, which the operating system chooses; \<^verbatim>\<open>os.path.isdir\<close> of
  an entry is whether it is a \<open>Dir\<close>.
\<close>

datatype tree = File | Dir "(string \<times> tree) list"

definition listdir :: "(string \<times> tree) list \<Rightarrow> string list" where
  "listdir entries = map fst entries"

text \<open>The two prefixes of a rendered line, as UTF-8: a vertical bar and three spaces, a tee,
  two dashes and a space.\<close>

definition bar :: string where
  "bar = [CHR 0xE2, CHR 0x94, CHR 0x82] @ ''   ''"

definition tee :: string where
  "tee = [CHR 0xE2, CHR 0x94, CHR 0x9C, CHR 0xE2, CHR 0x94, CHR 0x80, CHR 0xE2, CHR 0x94, CHR 0x80]
           @ '' ''"

text \<open>
  \<^verbatim>\<open>
  def build_tree(dir_path: str, indent: int = 0) -> str:
      tree_str = ""
      items = sorted(os.listdir(dir_path))
      for item in items:
          full_path = os.path.join(dir_path, item)
          if os.path.isdir(full_path):
              tree_str += "|   " * indent + f"|-- {item}/\n"
              tree_str += build_tree(full_path, indent + 1)
          else:
              tree_str += "|   " * indent + f"|-- {item}\n"
      return tree_str
  \<close>
  (the source draws the prefixes with box characters). The directory at \<^verbatim>\<open>dir_path\<close> is given by
  its entries; \<^verbatim>\<open>sorted\<close> on strings is the lexicographic order of their code points, which on
  UTF-8 is the lexicographic order of the bytes.
\<close>

function build_tree :: "(string \<times> tree) list \<Rightarrow> nat \<Rightarrow> string" where
  "build_tree entries indent =
     concat (map (\<lambda>item.
        (case map_of entries item of
           Some (Dir sub) \<Rightarrow>
             concat (replicate indent bar) @ tee @ item @ ''/'' @ [NL] @ build_tree sub (indent + 1)
         | _ \<Rightarrow> concat (replicate indent bar) @ tee @ item @ [NL]))
       (sort (listdir entries)))"
  by pat_completeness auto
termination
proof (relation "measure (\<lambda>(entries, indent). size_list (size_prod (\<lambda>_. 0) size) entries)")
  show "wf (measure (\<lambda>(entries, indent). size_list (size_prod (\<lambda>_. 0) size) entries))" by simp
next
  fix entries :: "(string \<times> tree) list" and indent :: nat and item x2 sub
  assume "map_of entries item = Some x2" "x2 = Dir sub"
  then have "(item, Dir sub) \<in> set entries" by (auto dest: map_of_SomeD)
  then have "size_prod (\<lambda>_. 0) size (item, Dir sub) \<le> size_list (size_prod (\<lambda>_. 0) size) entries"
    by (induction entries) auto
  then show "((sub, indent + 1), entries, indent)
              \<in> measure (\<lambda>(entries, indent). size_list (size_prod (\<lambda>_. 0) size) entries)"
    by simp
qed

text \<open>Two listings show the same directory contents: the same entry names, each once, and
  under each name a file in both or directories with the same contents.\<close>

fun same_contents :: "tree \<Rightarrow> tree \<Rightarrow> bool" where
  "same_contents File File = True"
| "same_contents (Dir es) (Dir es') =
     (distinct (map fst es) \<and> distinct (map fst es') \<and> set (map fst es) = set (map fst es') \<and>
      list_all (\<lambda>(n, t). list_all (\<lambda>(n', t'). n \<noteq> n' \<or> same_contents t t') es') es)"
| "same_contents _ _ = False"

text \<open>A small repository, enumerated in two different orders.\<close>

definition repo_listing :: "(string \<times> tree) list" where
  "repo_listing =
     [(''setup.py'', File),
      (''src'', Dir [(''util.py'', File), (''core.py'', File)]),
      (''README.md'', File)]"

definition repo_listing' :: "(string \<times> tree) list" where
  "repo_listing' =
     [(''README.md'', File),
      (''src'', Dir [(''core.py'', File), (''util.py'', File)]),
      (''setup.py'', File)]"

section \<open>ContextGenerator: the generative service and process_task\<close>

text \<open>
  The OpenAI client is outside the repository: it is taken as a function from the model name
  and the prompt to the completion text, or to the error the call raises. What the claims need
  of its state is the list of the requests made so far, in order.
\<close>

type_synonym client = "string \<Rightarrow> string \<Rightarrow> error + string"

type_synonym requests = "(string \<times> string) list"

record ContextGenerator =
  github_token :: "string option"
  client :: "client option"

text \<open>
  \<^verbatim>\<open>self.client = OpenAI(api_key=openai_api_key) if openai_api_key else None\<close>:
  no key and the empty key both leave the generator without a client. \<open>OpenAI\<close> is the
  constructor of the client library.
\<close>

definition init :: "(string \<Rightarrow> client) \<Rightarrow> string option \<Rightarrow> string option \<Rightarrow> ContextGenerator" where
  "init OpenAI token openai_api_key =
     \<lparr>github_token = token,
      client = (case openai_api_key of
                  None \<Rightarrow> None
                | Some k \<Rightarrow> if k = [] then None else Some (OpenAI k))\<rparr>"

text \<open>
  \<^verbatim>\<open>
  def get_llm_response(self, prompt: str, model: str = "gpt-3.5-turbo") -> str:
      if not self.client:
          raise ValueError("OpenAI API key not provided")
      response = self.client.chat.completions.create(
          model=model, messages=[{"role": "user", "content": prompt}])
      return response.choices[0].message.content
  \<close>
\<close>

definition get_llm_response ::
  "ContextGenerator \<Rightarrow> string \<Rightarrow> string \<Rightarrow> requests \<Rightarrow> (error + string) \<times> requests" where
  "get_llm_response self prompt model log =
     (case client self of
        None \<Rightarrow> (Inl (ValueError ''OpenAI API key not provided''), log)
      | Some c \<Rightarrow> (c model prompt, log @ [(model, prompt)]))"

text \<open>Sequencing of steps that may raise, over the list of requests: the first error ends
  the run.\<close>

definition and_then ::
  "('s \<Rightarrow> (error + 'a) \<times> 's) \<Rightarrow> ('a \<Rightarrow> 's \<Rightarrow> (error + 'b) \<times> 's) \<Rightarrow> 's \<Rightarrow> (error + 'b) \<times> 's" where
  "and_then m f s = (case m s of (Inl e, s') \<Rightarrow> (Inl e, s') | (Inr x, s') \<Rightarrow> f x s')"

definition pure_step :: "error + 'a \<Rightarrow> 's \<Rightarrow> (error + 'a) \<times> 's" where
  "pure_step r s = (r, s)"

text \<open>\<^verbatim>\<open>d[k]\<close> and \<^verbatim>\<open>d.get(k, default)\<close> on a dictionary of strings.\<close>

definition getitem :: "(string \<rightharpoonup> string) \<Rightarrow> string \<Rightarrow> error + string" where
  "getitem d k = (case d k of None \<Rightarrow> Inl (KeyError k) | Some v \<Rightarrow> Inr v)"

definition get_default :: "(string \<rightharpoonup> string) \<Rightarrow> string \<Rightarrow> string \<Rightarrow> string" where
  "get_default d k dflt = (case d k of None \<Rightarrow> dflt | Some v \<Rightarrow> v)"

text \<open>
  The \<open>CodebaseAnalyzer\<close> that this version of the generator calls (with a repository owner and
  name and a GitHub token) is not among the sources, nor is Python's rendering of a dictionary
  in a formatted string: both are parameters. Each analyzer operation returns its text or the
  error it raises.
\<close>

record analyzer =
  derive_repo_info :: "(string \<rightharpoonup> string) \<Rightarrow> error + (string \<rightharpoonup> string)"
  file_level_localization ::
    "string \<Rightarrow> string \<Rightarrow> string \<Rightarrow> string \<Rightarrow> string option \<Rightarrow> error + string"
  function_class_localization ::
    "string \<Rightarrow> string \<Rightarrow> string list \<Rightarrow> string \<Rightarrow> string \<Rightarrow> string option \<Rightarrow> error + string"
  line_level_localization ::
    "string \<Rightarrow> string \<Rightarrow> string list \<Rightarrow> string \<Rightarrow> string \<Rightarrow> string option \<Rightarrow> error + string"
  format_dict :: "(string \<rightharpoonup> string) \<Rightarrow> string"

record analysis =
  repository_info :: "string \<rightharpoonup> string"
  file_level_analysis :: string
  function_class_analysis :: string
  line_level_analysis :: string
  test_case :: string

text \<open>\<^verbatim>\<open>[func.strip('- ') for func in func_response.split('\n') if func.startswith('- ')]\<close>\<close>

definition target_functions :: "string \<Rightarrow> string list" where
  "target_functions func_response =
     map (strip_chars (\<lambda>c. c = CHR ''-'' \<or> c = CHR '' ''))
       (filter (prefix ''- '') (split_on NL func_response))"

text \<open>The formatted string of step 5 of \<open>process_task\<close>, line by line.\<close>

definition test_case_prompt ::
  "string \<Rightarrow> string \<Rightarrow> string \<Rightarrow> string \<Rightarrow> string \<Rightarrow> string \<Rightarrow> string" where
  "test_case_prompt repo_info file_response func_response line_response task_data model_patch =
     concat (map (\<lambda>l. l @ [NL])
       [''Based on the following information, generate a test case:'',
        '''',
        ''Repository Information:'',
        repo_info,
        '''',
        ''File Level Analysis:'',
        file_response,
        '''',
        ''Function/Class Analysis:'',
        func_response,
        '''',
        ''Line Level Analysis:'',
        line_response,
        '''',
        ''Task Information:'',
        task_data,
        '''',
        ''Original Patch:'',
        model_patch,
        '''',
        ''Generate a comprehensive test case that:'',
        ''1. Tests the identified functionality'',
        ''2. Includes necessary imports'',
        ''3. Follows the project'' @ [CHR 0x27] @ ''s testing conventions'',
        ''4. Handles edge cases'',
        ''5. Includes proper documentation''])"

text \<open>
  \<open>process_task\<close>: repository information, then the file, function and line stages, each a
  prompt built by the analyzer and sent to the service, then the test case. Every call of
  \<open>get_llm_response\<close> uses the default model. The source has no branch on the parsed
  candidates of a stage.
\<close>

definition process_task ::
  "analyzer \<Rightarrow> ContextGenerator \<Rightarrow> (string \<rightharpoonup> string) \<Rightarrow> requests \<Rightarrow> (error + analysis) \<times> requests" where
  "process_task an self task_data =
     and_then (pure_step (derive_repo_info an task_data)) (\<lambda>repo_info.
     and_then (pure_step (getitem repo_info ''repo_owner'')) (\<lambda>repo_owner.
     and_then (pure_step (getitem repo_info ''repo_name'')) (\<lambda>repo_name.
     and_then (pure_step (file_level_localization an repo_owner repo_name
                 (get_default task_data ''issue_description'' '''')
                 (get_default task_data ''model_patch'' '''') (github_token self))) (\<lambda>file_prompt.
     and_then (get_llm_response self file_prompt ''gpt-3.5-turbo'') (\<lambda>file_response.
     and_then (pure_step (function_class_localization an repo_owner repo_name
                 (extract_top_files file_response)
                 (get_default task_data ''issue_description'' '''')
                 (get_default task_data ''model_patch'' '''') (github_token self))) (\<lambda>func_prompt.
     and_then (get_llm_response self func_prompt ''gpt-3.5-turbo'') (\<lambda>func_response.
     and_then (pure_step (line_level_localization an repo_owner repo_name
                 (target_functions func_response)
                 (get_default task_data ''issue_description'' '''')
                 (get_default task_data ''model_patch'' '''') (github_token self))) (\<lambda>line_prompt.
     and_then (get_llm_response self line_prompt ''gpt-3.5-turbo'') (\<lambda>line_response.
     and_then (get_llm_response self
                 (test_case_prompt (format_dict an repo_info) file_response func_response
                    line_response (format_dict an task_data)
                    (get_default task_data ''model_patch'' ''''))
                 ''gpt-3.5-turbo'') (\<lambda>test_case.
     pure_step (Inr \<lparr>repository_info = repo_info,
                      file_level_analysis = file_response,
                      function_class_analysis = func_response,
                      line_level_analysis = line_response,
                      test_case = test_case\<rparr>)))))))))))"

text \<open>An analyzer and a service for the examples: the prompts name the stage and the candidates
  they were given, and the service answers the FILE stage with one file and every other stage
  with the empty text.\<close>

definition demo_analyzer :: analyzer where
  "demo_analyzer =
     \<lparr>derive_repo_info = (\<lambda>task. Inr [''repo_owner'' \<mapsto> ''sympy'', ''repo_name'' \<mapsto> ''sympy'']),
      file_level_localization = (\<lambda>ow nm issue patch token. Inr ''FILE'' ),
      function_class_localization =
        (\<lambda>ow nm top_files issue patch token. Inr (''FUNCTION '' @ concat top_files)),
      line_level_localization =
        (\<lambda>ow nm targets issue patch token. Inr (''LINE '' @ concat targets)),
      format_dict = (\<lambda>d. ''{}'')\<rparr>"

definition demo_client :: client where
  "demo_client model prompt = Inr (if prompt = ''FILE'' then ''- core.py (parser)'' else '''')"

definition demo_task :: "string \<rightharpoonup> string" where
  "demo_task = [''issue_description'' \<mapsto> ''crash'', ''model_patch'' \<mapsto> ''diff'']"

section \<open>Properties of get_context_window\<close>

lemma open_read_file:
  "fsys p = Some (RegFile f) \<Longrightarrow> readable f \<Longrightarrow> open_read fsys p = Inr (content f)"
  by (simp add: open_read_def)

lemma py_slice_past_end:
  "0 \<le> i \<Longrightarrow> int (length xs) \<le> i \<Longrightarrow> py_slice xs i j = []"
  by (simp add: py_slice_def slice_bound_def Let_def)

text \<open>
  C10: for an existing readable file with \<open>L\<close> lines, a request whose clamped start
  \<open>max(0, start - window)\<close> is at or past \<open>L\<close> returns the empty string, whatever the end.
\<close>

theorem get_context_window_beyond_end:
  assumes "fsys p = Some (RegFile f)" and "readable f"
    and "int (length (readlines (content f))) \<le> max 0 (s - w)"
  shows "get_context_window fsys p (s, e) w = Inr []"
  using assms
  by (simp add: get_context_window_def open_read_file Let_def py_slice_past_end)

theorem get_context_window_beyond_end_witness:
  "demo_fs ''f.py'' = Some (RegFile \<lparr>content = ''a'' @ [NL] @ ''b'' @ [NL] @ ''c'' @ [NL],
                                     readable = True, writable = True\<rparr>) \<and>
   int (length (readlines (''a'' @ [NL] @ ''b'' @ [NL] @ ''c'' @ [NL]))) \<le> max 0 (15 - 10) \<and>
   get_context_window demo_fs ''f.py'' (15, 20) 10 = Inr []"
proof -
  let ?f = "\<lparr>content = ''a'' @ [NL] @ ''b'' @ [NL] @ ''c'' @ [NL], readable = True, writable = True\<rparr>"
  have h: "demo_fs ''f.py'' = Some (RegFile ?f)" by (simp add: demo_fs_def)
  have r: "readable ?f" by simp
  have l: "int (length (readlines (content ?f))) \<le> max 0 (15 - 10)"
    by (simp add: readlines_def)
  show ?thesis
    using get_context_window_beyond_end [where fsys = demo_fs and p = "''f.py''" and f = ?f
        and s = 15 and w = 10 and e = 20] h l
    by simp
qed

lemma filter_range_upt:
  "0 \<le> a \<Longrightarrow> filter (\<lambda>i. a \<le> int i \<and> int i < b) [0..<n] = [nat a..<min (nat b) n]"
proof (induction n)
  case 0 then show ?case by simp
next
  case (Suc n)
  have lt: "int n < b \<longleftrightarrow> n < nat b" by linarith
  have le: "a \<le> int n \<longleftrightarrow> nat a \<le> n" using Suc.prems by linarith
  show ?case
  proof (cases "n < nat b")
    case True
    then have m: "min (nat b) (Suc n) = Suc n" "min (nat b) n = n" by simp_all
    show ?thesis using Suc True by (simp add: m lt le)
  next
    case False
    then have m: "min (nat b) (Suc n) = nat b" "min (nat b) n = nat b" by simp_all
    show ?thesis using Suc False by (simp add: m lt)
  qed
qed

lemma window_lines_take_drop:
  assumes "0 \<le> a" and "b \<le> int (length xs)"
  shows "window_lines xs a b = take (nat b - nat a) (drop (nat a) xs)"
proof -
  have b: "nat b \<le> length xs" using assms by linarith
  have "window_lines xs a b = map (\<lambda>i. xs ! i) [nat a..<nat b]"
    using assms b by (simp add: window_lines_def filter_range_upt min_def)
  also have "[nat a..<nat b] = take (nat b - nat a) (drop (nat a) [0..<length xs])"
    using b by (cases "nat a \<le> nat b") simp_all
  also have "map (\<lambda>i. xs ! i) \<dots> = take (nat b - nat a) (drop (nat a) (map (\<lambda>i. xs ! i) [0..<length xs]))"
    by (simp only: take_map drop_map)
  finally show ?thesis by (simp add: map_nth)
qed

lemma slice_bound_le: "slice_bound n k \<le> n"
  by (auto simp: slice_bound_def)

lemma py_slice_window:
  assumes "0 \<le> a" and "0 \<le> b" and "b \<le> int (length xs)"
  shows "py_slice xs a b = window_lines xs a b"
proof (cases "a \<le> int (length xs)")
  case True
  with assms show ?thesis
    by (simp add: window_lines_take_drop py_slice_def slice_bound_def Let_def min_def)
next
  case False
  with assms show ?thesis
    by (simp add: window_lines_take_drop py_slice_def slice_bound_def Let_def min_def)
qed


lemma py_slice_from_zero: "py_slice xs 0 j = take (slice_bound (length xs) j) xs"
  by (simp add: py_slice_def slice_bound_def Let_def)

text \<open>
  C8 (amended): for an existing readable file, a request with \<open>start - window \<le> 0\<close> never
  raises and returns a run of lines that begins at line 0; and whenever
  \<open>0 \<le> end + window\<close> the returned window is exactly the lines with index from
  \<open>max(0, start - window)\<close> up to, not including, \<open>min(file_length, end + window)\<close>.
\<close>

theorem get_context_window_clamped:
  assumes "fsys p = Some (RegFile f)" and "readable f"
  shows "(s - w \<le> 0 \<longrightarrow>
            (\<exists>k \<le> length (readlines (content f)).
               get_context_window fsys p (s, e) w = Inr (concat (take k (readlines (content f)))))) \<and>
         (0 \<le> e + w \<longrightarrow>
            get_context_window fsys p (s, e) w =
              Inr (concat (window_lines (readlines (content f)) (max 0 (s - w))
                     (min (int (length (readlines (content f)))) (e + w)))))"
proof (intro conjI impI)
  assume "s - w \<le> 0"
  then have "max 0 (s - w) = 0" by simp
  then have "get_context_window fsys p (s, e) w =
      Inr (concat (take (slice_bound (length (readlines (content f)))
         (min (int (length (readlines (content f)))) (e + w))) (readlines (content f))))"
    using assms by (simp add: get_context_window_def open_read_file Let_def py_slice_from_zero)
  then show "\<exists>k \<le> length (readlines (content f)).
      get_context_window fsys p (s, e) w = Inr (concat (take k (readlines (content f))))"
    using slice_bound_le by blast
next
  assume "0 \<le> e + w"
  then show "get_context_window fsys p (s, e) w =
      Inr (concat (window_lines (readlines (content f)) (max 0 (s - w))
             (min (int (length (readlines (content f)))) (e + w))))"
    using assms by (simp add: get_context_window_def open_read_file Let_def py_slice_window)
qed

theorem get_context_window_clamped_witness:
  "demo_fs ''f.py'' = Some (RegFile \<lparr>content = ''a'' @ [NL] @ ''b'' @ [NL] @ ''c'' @ [NL],
                                     readable = True, writable = True\<rparr>) \<and>
   (-4::int) - 1 \<le> 0 \<and> (0::int) \<le> 0 + 1 \<and>
   get_context_window demo_fs ''f.py'' (-4, 0) 1 = Inr (''a'' @ [NL])"
proof -
  let ?f = "\<lparr>content = ''a'' @ [NL] @ ''b'' @ [NL] @ ''c'' @ [NL], readable = True, writable = True\<rparr>"
  have h: "demo_fs ''f.py'' = Some (RegFile ?f)" by (simp add: demo_fs_def)
  have r: "readable ?f" by simp
  show ?thesis
    using get_context_window_clamped [where fsys = demo_fs and p = "''f.py''" and f = ?f
        and s = "-4" and w = 1 and e = 0] h
    by (simp add: readlines_def window_lines_def)
qed

text \<open>
  With \<open>end + window < 0\<close> the slice's negative end counts from the end of the file: on
  three lines, the range \<open>(-20, -12)\<close> with window 10 returns line 0, while the window
  from \<open>max(0, -30)\<close> to \<open>min(3, -2)\<close> holds no line.
\<close>

theorem get_context_window_negative_end_counterexample:
  "get_context_window demo_fs ''f.py'' (-20, -12) 10 = Inr (''a'' @ [NL]) \<and>
   concat (window_lines (readlines (''a'' @ [NL] @ ''b'' @ [NL] @ ''c'' @ [NL]))
            (max 0 (-20 - 10)) (min 3 (-12 + 10))) = []"
  by (simp add: get_context_window_def open_read_def demo_fs_def readlines_def py_slice_def
        slice_bound_def Let_def window_lines_def)

section \<open>Properties of inject_tests\<close>

lemma str_in_iff: "str_in sub s \<longleftrightarrow> sublist sub s"
  by (induction s) (auto simp: sublist_Cons_right)

lemma str_in_append: "str_in sub (a @ b @ sub @ c)"
  by (simp add: str_in_iff sublist_def) (metis append.assoc)

lemma sentinel_in_formatted: "str_in sentinel (old @ formatted_tests t)"
  unfolding formatted_tests_def using str_in_append[of sentinel old separator "separator @ strip t @ [NL]"]
  by simp

lemma Path_unbound: "load_global module_globals ''Path'' = Inl (name_error ''Path'')"
  by (simp add: load_global_def module_globals_def)

lemma inject_tests_raises: "inject_tests fsys ti t = (Inl (name_error ''Path''), fsys)"
  by (simp add: inject_tests_def Path_unbound)

lemma inject_tests_20250419213149_raises:
  "inject_tests_20250419213149 fsys ti t =
     (if t = [] then (Inl (ValueError ''utboost_tests must be a non-empty string''), fsys)
      else if ti ''test_file'' = None then
        (Inl (ValueError (''task_instance must contain '' @ [CHR 0x27] @ ''test_file'' @
                          [CHR 0x27] @ '' key'')), fsys)
      else (Inl (name_error ''Path''), fsys))"
  by (simp add: inject_tests_20250419213149_def Path_unbound split: option.splits)


text \<open>
  C5: with a test text that is not empty, \<^verbatim>\<open>inject_tests\<close> raises \<^verbatim>\<open>NameError\<close> for the name
  \<^verbatim>\<open>Path\<close> when the test file \<open>new.py\<close> does not exist, and when the file \<open>ro.py\<close> cannot be
  opened for append, in the guarded snapshot and in the current function: neither
  \<^verbatim>\<open>FileNotFoundError\<close> nor \<^verbatim>\<open>PermissionError\<close>. With the empty text the guarded snapshot
  raises \<^verbatim>\<open>ValueError\<close>, the current function \<^verbatim>\<open>NameError\<close>. The file system is unchanged in
  each case.
\<close>

theorem inject_tests_failures_raise_name_error:
  "test_fs ''new.py'' = None \<and>
   inject_tests_20250419213149 test_fs (task ''new.py'') ''def test_a(): pass'' =
     (Inl (name_error ''Path''), test_fs) \<and>
   inject_tests test_fs (task ''new.py'') ''def test_a(): pass'' =
     (Inl (name_error ''Path''), test_fs) \<and>
   test_fs ''ro.py'' =
     Some (RegFile \<lparr>content = ''y = 2'' @ [NL], readable = True, writable = False\<rparr>) \<and>
   inject_tests_20250419213149 test_fs (task ''ro.py'') ''def test_a(): pass'' =
     (Inl (name_error ''Path''), test_fs) \<and>
   inject_tests test_fs (task ''ro.py'') ''def test_a(): pass'' =
     (Inl (name_error ''Path''), test_fs) \<and>
   inject_tests_20250419213149 test_fs (task ''t.py'') [] =
     (Inl (ValueError ''utboost_tests must be a non-empty string''), test_fs) \<and>
   inject_tests test_fs (task ''t.py'') [] = (Inl (name_error ''Path''), test_fs)"
  by (simp add: inject_tests_raises inject_tests_20250419213149_raises task_def test_fs_def)

section \<open>Properties of the code compression\<close>

lemma lines_acc_line:
  "NL \<notin> set l \<Longrightarrow> lines_acc acc (l @ NL # rest) = (acc @ l @ [NL]) # lines_acc [] rest"
  by (induction l arbitrary: acc) auto

lemma readlines_terminated:
  "\<forall>l \<in> set ls. NL \<notin> set l \<Longrightarrow>
   readlines (concat (map (\<lambda>l. l @ [NL]) ls)) = map (\<lambda>l. l @ [NL]) ls"
  unfolding readlines_def
  by (induction ls) (simp_all add: lines_acc_line)

lemma header_match_first:
  "header_match kw line = Some g \<Longrightarrow> prefix kw line"
  by (simp add: header_match_def split: if_splits)

lemma header_match_prefix:
  assumes "header_match kw line = Some g"
  shows "\<exists>pre rest. g = pre @ '':'' \<and> line = g @ rest"
proof -
  from assms have p: "prefix kw line" by (rule header_match_first)
  define r1 where "r1 = drop (length kw) line"
  define r2 where "r2 = dropWhile isspace r1"
  define r3 where "r3 = dropWhile isword r2"
  define r4 where "r4 = dropWhile (\<lambda>c. c \<noteq> CHR '':'' \<and> c \<noteq> NL) r3"
  from assms p obtain cs where r4: "r4 = CHR '':'' # cs"
    and g: "g = kw @ takeWhile isspace r1 @ takeWhile isword r2 @
                takeWhile (\<lambda>c. c \<noteq> CHR '':'' \<and> c \<noteq> NL) r3 @ '':''"
    by (auto simp: header_match_def Let_def r1_def r2_def r3_def r4_def
          split: if_splits list.splits)
  have "line = kw @ r1" using p by (auto simp: r1_def prefix_def)
  also have "r1 = takeWhile isspace r1 @ r2" by (simp add: r2_def)
  also have "r2 = takeWhile isword r2 @ r3" by (simp add: r3_def)
  also have "r3 = takeWhile (\<lambda>c. c \<noteq> CHR '':'' \<and> c \<noteq> NL) r3 @ r4" by (simp add: r4_def)
  finally have "line = g @ cs" by (simp add: g r4)
  moreover have "g = (kw @ takeWhile isspace r1 @ takeWhile isword r2 @
                takeWhile (\<lambda>c. c \<noteq> CHR '':'' \<and> c \<noteq> NL) r3) @ '':''"
    by (simp add: g)
  ultimately show ?thesis by blast
qed

lemma header_before_newline:
  assumes "header_match kw (h @ [NL]) = Some g"
  shows "prefix g h"
proof -
  from header_match_prefix [OF assms] obtain pre rest
    where g: "g = pre @ '':''" and l: "h @ [NL] = g @ rest" by blast
  show ?thesis
  proof (cases rest rule: rev_cases)
    case Nil
    with g l have "h @ [NL] = pre @ '':''" by simp
    then have "NL = CHR '':''" by (metis last_snoc)
    then show ?thesis by simp
  next
    case (snoc r x)
    with l have "h @ [NL] = (g @ r) @ [x]" by simp
    then have "h = g @ r" by (simp only: append1_eq_conv)
    then show ?thesis by (simp add: prefix_def)
  qed
qed

lemma indented_no_match:
  assumes "indented l"
  shows "\<not> decorator_match (l @ [NL])" and "header_match ''class'' (l @ [NL]) = None"
    and "header_match ''def'' (l @ [NL]) = None"
proof -
  show "\<not> decorator_match (l @ [NL])"
    using assms by (cases l) (auto simp: indented_def decorator_match_def split: list.splits)
  show "header_match ''class'' (l @ [NL]) = None"
    using assms by (cases l) (auto simp: indented_def header_match_def)
  show "header_match ''def'' (l @ [NL]) = None"
    using assms by (cases l) (auto simp: indented_def header_match_def)
qed

lemma scan_line_indented:
  "indented l \<Longrightarrow> compressed (scan_line st (l @ [NL])) = compressed st"
  by (simp add: scan_line_def indented_no_match)

lemma foldl_scan_indented:
  "\<forall>l \<in> set body. indented l \<Longrightarrow>
   compressed (foldl scan_line st (map (\<lambda>l. l @ [NL]) body)) = compressed st"
  by (induction body arbitrary: st) (simp_all add: scan_line_indented)

lemma class_not_decorator:
  "header_match ''class'' line = Some g \<Longrightarrow> \<not> decorator_match line"
  by (drule header_match_first) (auto simp: decorator_match_def prefix_def split: list.splits)

text \<open>
  C6: a file that holds a class header and, after it, only lines that are empty or start with
  a space or a tab compresses to the header alone: group 1 of the match, the header line up
  to its first colon.
\<close>

theorem compress_class_body:
  assumes "header_match ''class'' (h @ [NL]) = Some g" and "NL \<notin> set h"
    and "\<forall>l \<in> set body. NL \<notin> set l \<and> indented l"
  shows "compress_file (concat (map (\<lambda>l. l @ [NL]) (h # body))) = [g] \<and> prefix g h"
proof
  have "\<forall>l \<in> set (h # body). NL \<notin> set l" using assms by simp
  then have "readlines (concat (map (\<lambda>l. l @ [NL]) (h # body))) = map (\<lambda>l. l @ [NL]) (h # body)"
    by (rule readlines_terminated)
  moreover have "compressed (scan_line \<lparr>compressed = [], in_class = False, in_function = False\<rparr>
                   (h @ [NL])) = [g]"
    using assms(1) class_not_decorator [OF assms(1)] by (simp add: scan_line_def)
  ultimately show "compress_file (concat (map (\<lambda>l. l @ [NL]) (h # body))) = [g]"
    using assms(3) by (simp add: compress_file_def compress_lines_def foldl_scan_indented)
next
  show "prefix g h" using assms(1) by (rule header_before_newline)
qed

theorem compress_class_body_witness:
  "header_match ''class'' (''class Foo(Base):'' @ [NL]) = Some ''class Foo(Base):'' \<and>
   NL \<notin> set ''class Foo(Base):'' \<and>
   indented ''    x = 1'' \<and> indented ''    def bar(self):'' \<and> indented ''        return 2'' \<and>
   compress_file (concat (map (\<lambda>l. l @ [NL])
       [''class Foo(Base):'', ''    x = 1'', ''    def bar(self):'', ''        return 2''])) =
     [''class Foo(Base):'']"
proof -
  have m: "header_match ''class'' (''class Foo(Base):'' @ [NL]) = Some ''class Foo(Base):''"
    by (simp add: header_match_def isspace_def isword_def Let_def)
  have n: "NL \<notin> set ''class Foo(Base):''" by simp
  have b: "\<forall>l \<in> set [''    x = 1'', ''    def bar(self):'', ''        return 2''].
             NL \<notin> set l \<and> indented l"
    by (simp add: indented_def)
  have i: "indented ''    x = 1''" "indented ''    def bar(self):''" "indented ''        return 2''"
    by (simp_all add: indented_def)
  from compress_class_body [OF m n b] m n i show ?thesis by blast
qed

text \<open>
  C3 (amended): the header patterns match at the start of a line only, so scenario B
  compresses to the class header and the top-level function header; the indented
  \<^verbatim>\<open>def bar():\<close> is not emitted.
\<close>

theorem compress_scenario_B:
  "compress_file scenario_B = [''class Foo:'', ''def baz():'']"
  by (simp add: compress_file_def compress_lines_def scenario_B_def readlines_def scan_line_def
      header_match_def decorator_match_def isword_def isspace_def strip_def strip_chars_def Let_def)

text \<open>The outline the specification gives for scenario B is not what the compression yields.\<close>

theorem compress_scenario_B_counterexample:
  "compress_file scenario_B \<noteq> [''class Foo:'', ''def bar():'', ''def baz():'']"
  by (simp add: compress_file_def compress_lines_def scenario_B_def readlines_def scan_line_def
      header_match_def decorator_match_def isword_def isspace_def strip_def strip_chars_def Let_def)

section \<open>Properties of extract_top_files\<close>


lemma split_on_no_sep: "c \<notin> set l \<Longrightarrow> split_on c l = [l]"
  by (induction l) auto

lemma split_on_sep: "c \<notin> set l \<Longrightarrow> split_on c (l @ c # rest) = l # split_on c rest"
  by (induction l) auto

lemma split_join_lines:
  "ls \<noteq> [] \<Longrightarrow> \<forall>l \<in> set ls. NL \<notin> set l \<Longrightarrow> split_on NL (join_lines ls) = ls"
  by (induction ls rule: join_lines.induct) (simp_all add: split_on_no_sep split_on_sep)

text \<open>
  C4 (amended): the parser returns one identifier for every line that starts with the bullet
  marker, in the order of the lines, and removes no duplicate; scenario C parses to
  \<open>foo.py\<close>, \<open>bar.py\<close>, the marker and the rationale in parentheses stripped.
\<close>

theorem extract_top_files_per_line:
  assumes "\<forall>l \<in> set ls. NL \<notin> set l"
  shows "extract_top_files (join_lines ls) = map file_path_of (filter (prefix ''- '') ls) \<and>
         extract_top_files scenario_C = [''foo.py'', ''bar.py'']"
proof
  show "extract_top_files (join_lines ls) = map file_path_of (filter (prefix ''- '') ls)"
  proof (cases ls)
    case Nil
    then show ?thesis by (simp add: extract_top_files_def)
  next
    case (Cons l ls')
    then have "split_on NL (join_lines ls) = ls" using assms by (intro split_join_lines) simp_all
    then show ?thesis by (simp add: extract_top_files_def)
  qed
next
  show "extract_top_files scenario_C = [''foo.py'', ''bar.py'']"
    by (simp add: extract_top_files_def scenario_C_def file_path_of_def strip_def strip_chars_def
          isspace_def)
qed

theorem extract_top_files_per_line_witness:
  "NL \<notin> set ''- a.py (first)'' \<and> NL \<notin> set ''see below'' \<and> NL \<notin> set ''- a.py (again)'' \<and>
   extract_top_files (join_lines [''- a.py (first)'', ''see below'', ''- a.py (again)'']) =
     [''a.py'', ''a.py'']"
proof -
  have h: "\<forall>l \<in> set [''- a.py (first)'', ''see below'', ''- a.py (again)'']. NL \<notin> set l"
    by simp
  from extract_top_files_per_line [OF h] show ?thesis
    by (simp add: file_path_of_def strip_def strip_chars_def isspace_def)
qed

text \<open>A response that names a file twice yields it twice.\<close>

theorem extract_top_files_duplicates_counterexample:
  "extract_top_files repeated_response = [''a.py'', ''a.py''] \<and>
   \<not> distinct (extract_top_files repeated_response)"
  by (simp add: extract_top_files_def repeated_response_def file_path_of_def strip_def
        strip_chars_def isspace_def)

section \<open>Properties of build_tree\<close>

declare build_tree.simps [simp del]

lemma same_contents_lookup:
  assumes "same_contents (Dir es) (Dir es')" and "item \<in> set (listdir es)"
  shows "\<exists>t t'. map_of es item = Some t \<and> map_of es' item = Some t' \<and> same_contents t t'"
proof -
  from assms(1) have d: "distinct (map fst es)" and d': "distinct (map fst es')"
    and eq: "set (map fst es) = set (map fst es')"
    and all: "list_all (\<lambda>(n, t). list_all (\<lambda>(n', t'). n \<noteq> n' \<or> same_contents t t') es') es"
    by simp_all
  from assms(2) obtain t where t: "(item, t) \<in> set es" by (auto simp: listdir_def)
  from assms(2) eq have "item \<in> set (map fst es')" by (simp add: listdir_def)
  then obtain t' where t': "(item, t') \<in> set es'" by auto
  from all t t' have "same_contents t t'" by (auto simp: list_all_iff)
  moreover from d t have "map_of es item = Some t" by simp
  moreover from d' t' have "map_of es' item = Some t'" by simp
  ultimately show ?thesis by blast
qed

lemma same_contents_sorted:
  assumes "same_contents (Dir es) (Dir es')"
  shows "sort (listdir es) = sort (listdir es')"
proof -
  from assms have "distinct (map fst es)" "distinct (map fst es')"
    "set (map fst es) = set (map fst es')" by simp_all
  then show ?thesis
    by (intro sorted_distinct_set_unique) (simp_all add: listdir_def)
qed

lemma same_contents_File: "same_contents File t' \<Longrightarrow> t' = File"
  by (cases t') simp_all

lemma same_contents_Dir: "same_contents (Dir sub) t' \<Longrightarrow> \<exists>sub'. t' = Dir sub'"
  by (cases t') simp_all

text \<open>
  C7: tree rendering is deterministic. \<open>build_tree\<close> is a function of the listing, so two calls
  on the same snapshot return the same text; and two listings of the same directory contents
  that differ in the order of enumeration, at any depth, render to the same text, because the
  names are sorted at every level before they are rendered.
\<close>

theorem build_tree_deterministic:
  assumes "same_contents (Dir es) (Dir es')"
  shows "build_tree es indent = build_tree es' indent"
  using assms
proof (induction es indent arbitrary: es' rule: build_tree.induct)
  case (1 entries indent)
  let ?line = "\<lambda>es item.
        (case map_of es item of
           Some (Dir sub) \<Rightarrow>
             concat (replicate indent bar) @ tee @ item @ ''/'' @ [NL] @ build_tree sub (indent + 1)
         | _ \<Rightarrow> concat (replicate indent bar) @ tee @ item @ [NL])"
  have s: "sort (listdir entries) = sort (listdir es')"
    using "1.prems" by (rule same_contents_sorted)
  have "?line entries item = ?line es' item" if item: "item \<in> set (sort (listdir entries))" for item
  proof -
    from item have "item \<in> set (listdir entries)" by simp
    with "1.prems" obtain t t' where t: "map_of entries item = Some t"
      and t': "map_of es' item = Some t'" and tt': "same_contents t t'"
      using same_contents_lookup by blast
    show ?thesis
    proof (cases t)
      case File
      with tt' have "t' = File" by (simp add: same_contents_File)
      with File t t' show ?thesis by simp
    next
      case (Dir sub)
      with tt' obtain sub' where sub': "t' = Dir sub'" using same_contents_Dir by blast
      from item t Dir tt' sub' have "build_tree sub (indent + 1) = build_tree sub' (indent + 1)"
        by (intro "1.IH") simp_all
      with Dir sub' t t' show ?thesis by simp
    qed
  qed
  then have "map (?line entries) (sort (listdir entries)) = map (?line es') (sort (listdir es'))"
    unfolding s [symmetric] by (intro map_cong) simp_all
  then show ?case
    by (subst build_tree.simps, subst (2) build_tree.simps) simp
qed

theorem build_tree_deterministic_witness:
  "same_contents (Dir repo_listing) (Dir repo_listing') \<and>
   build_tree repo_listing' 0 = build_tree repo_listing 0 \<and>
   build_tree repo_listing 0 =
     tee @ ''README.md'' @ [NL] @
     tee @ ''setup.py'' @ [NL] @
     tee @ ''src/'' @ [NL] @
     bar @ tee @ ''core.py'' @ [NL] @
     bar @ tee @ ''util.py'' @ [NL]"
proof -
  have h: "same_contents (Dir repo_listing) (Dir repo_listing')"
    by (auto simp: repo_listing_def repo_listing'_def)
  have "build_tree repo_listing 0 =
     tee @ ''README.md'' @ [NL] @
     tee @ ''setup.py'' @ [NL] @
     tee @ ''src/'' @ [NL] @
     bar @ tee @ ''core.py'' @ [NL] @
     bar @ tee @ ''util.py'' @ [NL]"
    by code_simp
  with h build_tree_deterministic [OF h, of 0] show ?thesis by simp
qed

section \<open>Properties of get_llm_response and process_task\<close>

lemma and_then_pure_Inr: "and_then (pure_step (Inr x)) f s = f x s"
  by (simp add: and_then_def pure_step_def)

lemma and_then_pure_Inl: "and_then (pure_step (Inl e)) f s = (Inl e, s)"
  by (simp add: and_then_def pure_step_def)

lemma and_then_request:
  "client self = Some c \<Longrightarrow> c model prompt = Inr answer \<Longrightarrow>
   and_then (get_llm_response self prompt model) f log = f answer (log @ [(model, prompt)])"
  by (simp add: and_then_def get_llm_response_def)

lemma and_then_no_client:
  "client self = None \<Longrightarrow>
   and_then (get_llm_response self prompt model) f log =
     (Inl (ValueError ''OpenAI API key not provided''), log)"
  by (simp add: and_then_def get_llm_response_def)

lemma process_task_no_client:
  assumes "client self = None"
  shows "\<exists>e. process_task an self task_data log = (Inl e, log)"
proof (cases "derive_repo_info an task_data")
  case (Inl e)
  then show ?thesis by (simp add: process_task_def and_then_pure_Inl)
next
  case info: (Inr repo_info)
  show ?thesis
  proof (cases "getitem repo_info ''repo_owner''")
    case (Inl e)
    with info show ?thesis by (simp add: process_task_def and_then_pure_Inl and_then_pure_Inr)
  next
    case owner: (Inr repo_owner)
    show ?thesis
    proof (cases "getitem repo_info ''repo_name''")
      case (Inl e)
      with info owner show ?thesis
        by (simp add: process_task_def and_then_pure_Inl and_then_pure_Inr)
    next
      case name: (Inr repo_name)
      show ?thesis
      proof (cases "file_level_localization an repo_owner repo_name
                 (get_default task_data ''issue_description'' [])
                 (get_default task_data ''model_patch'' []) (github_token self)")
        case (Inl e)
        with info owner name show ?thesis
          by (simp add: process_task_def and_then_pure_Inl and_then_pure_Inr)
      next
        case (Inr file_prompt)
        with info owner name assms show ?thesis
          by (simp add: process_task_def and_then_pure_Inr and_then_no_client)
      qed
    qed
  qed
qed

text \<open>
  C9: a generator built without a key, or with the empty key, has no client; without a client
  \<open>get_llm_response\<close> raises the error "OpenAI API key not provided" and makes no request, for
  every prompt and model; and \<open>process_task\<close> then ends in an error with no request made, so
  nothing is tried again.
\<close>

theorem get_llm_response_no_client:
  assumes "client self = None"
  shows "get_llm_response self prompt model log =
           (Inl (ValueError ''OpenAI API key not provided''), log) \<and>
         (\<exists>e. process_task an self task_data log = (Inl e, log)) \<and>
         client (init OpenAI token None) = None \<and>
         client (init OpenAI token (Some [])) = None"
  using assms process_task_no_client [OF assms]
  by (simp add: get_llm_response_def init_def)

theorem get_llm_response_no_client_witness:
  "client (init (\<lambda>k. demo_client) None None) = None \<and>
   get_llm_response (init (\<lambda>k. demo_client) None None) ''FILE'' ''gpt-3.5-turbo'' [] =
     (Inl (ValueError ''OpenAI API key not provided''), []) \<and>
   process_task demo_analyzer (init (\<lambda>k. demo_client) None None) demo_task [] =
     (Inl (ValueError ''OpenAI API key not provided''), [])"
proof -
  have h: "client (init (\<lambda>k. demo_client) None None) = None" by (simp add: init_def)
  have "process_task demo_analyzer (init (\<lambda>k. demo_client) None None) demo_task [] =
     (Inl (ValueError ''OpenAI API key not provided''), [])"
    by (simp add: process_task_def demo_analyzer_def and_then_pure_Inr getitem_def
          and_then_no_client [OF h])
  with get_llm_response_no_client [OF h, of "''FILE''" "''gpt-3.5-turbo''" "[]"] h
  show ?thesis by simp
qed

text \<open>With a client, an empty answer of the FUNCTION stage parses to no candidate, and the run
  still sends the LINE stage's prompt and the test-case prompt and returns an analysis.\<close>

theorem process_task_empty_candidates_counterexample:
  "target_functions [] = [] \<and>
   process_task demo_analyzer \<lparr>github_token = None, client = Some demo_client\<rparr> demo_task [] =
     (Inr \<lparr>repository_info = [''repo_owner'' \<mapsto> ''sympy'', ''repo_name'' \<mapsto> ''sympy''],
           file_level_analysis = ''- core.py (parser)'',
           function_class_analysis = [],
           line_level_analysis = [],
           test_case = []\<rparr>,
      [(''gpt-3.5-turbo'', ''FILE''),
       (''gpt-3.5-turbo'', ''FUNCTION core.py''),
       (''gpt-3.5-turbo'', ''LINE ''),
       (''gpt-3.5-turbo'',
          test_case_prompt ''{}'' ''- core.py (parser)'' [] [] ''{}'' ''diff'')])"
proof -
  have t: "target_functions [] = []" by (simp add: target_functions_def)
  have e: "extract_top_files ''- core.py (parser)'' = [''core.py'']"
    by (simp add: extract_top_files_def file_path_of_def strip_def strip_chars_def isspace_def)
  have c: "client \<lparr>github_token = None, client = Some demo_client\<rparr> = Some demo_client"
    by simp
  have p: "test_case_prompt ''{}'' ''- core.py (parser)'' [] [] ''{}'' ''diff'' \<noteq> ''FILE''"
    by (simp add: test_case_prompt_def)
  show ?thesis
    by (simp add: t e p process_task_def demo_analyzer_def demo_task_def getitem_def
          get_default_def and_then_pure_Inr and_then_request [OF c] demo_client_def pure_step_def)
qed

text \<open>
  C2 (amended): \<open>process_task\<close> has no result for a stage without candidates. In a run whose
  analyzer and service calls succeed and whose FUNCTION stage answer parses to no candidate,
  the LINE stage is invoked with the empty list, then the test case is requested, and the run
  returns the analysis with all four answers: four requests are made, in the order FILE,
  FUNCTION, LINE, test case.
\<close>

theorem process_task_empty_candidates:
  assumes "client self = Some c"
    and "derive_repo_info an task_data = Inr repo_info"
    and "repo_info ''repo_owner'' = Some repo_owner"
    and "repo_info ''repo_name'' = Some repo_name"
    and "issue = get_default task_data ''issue_description'' []"
    and "patch = get_default task_data ''model_patch'' []"
    and "file_level_localization an repo_owner repo_name issue patch (github_token self)
           = Inr file_prompt"
    and "c ''gpt-3.5-turbo'' file_prompt = Inr file_response"
    and "function_class_localization an repo_owner repo_name (extract_top_files file_response)
           issue patch (github_token self) = Inr func_prompt"
    and "c ''gpt-3.5-turbo'' func_prompt = Inr func_response"
    and "target_functions func_response = []"
    and "line_level_localization an repo_owner repo_name [] issue patch (github_token self)
           = Inr line_prompt"
    and "c ''gpt-3.5-turbo'' line_prompt = Inr line_response"
    and "prompt = test_case_prompt (format_dict an repo_info) file_response func_response
           line_response (format_dict an task_data) patch"
    and "c ''gpt-3.5-turbo'' prompt = Inr answer"
  shows "process_task an self task_data log =
     (Inr \<lparr>repository_info = repo_info,
           file_level_analysis = file_response,
           function_class_analysis = func_response,
           line_level_analysis = line_response,
           test_case = answer\<rparr>,
      log @ [(''gpt-3.5-turbo'', file_prompt), (''gpt-3.5-turbo'', func_prompt),
             (''gpt-3.5-turbo'', line_prompt), (''gpt-3.5-turbo'', prompt)])"
proof -
  note req = and_then_request [OF assms(1)]
  show ?thesis
    unfolding process_task_def
    using assms(2-)
    by (simp add: getitem_def and_then_pure_Inr req pure_step_def)
qed

theorem process_task_empty_candidates_witness:
  "client \<lparr>github_token = Some ''tok'', client = Some demo_client\<rparr> = Some demo_client \<and>
   demo_client ''gpt-3.5-turbo'' ''FUNCTION core.py'' = Inr [] \<and>
   target_functions [] = [] \<and>
   process_task demo_analyzer \<lparr>github_token = Some ''tok'', client = Some demo_client\<rparr>
       demo_task [(''gpt-4'', ''earlier'')] =
     (Inr \<lparr>repository_info = [''repo_owner'' \<mapsto> ''sympy'', ''repo_name'' \<mapsto> ''sympy''],
           file_level_analysis = ''- core.py (parser)'',
           function_class_analysis = [],
           line_level_analysis = [],
           test_case = []\<rparr>,
      [(''gpt-4'', ''earlier''),
       (''gpt-3.5-turbo'', ''FILE''),
       (''gpt-3.5-turbo'', ''FUNCTION core.py''),
       (''gpt-3.5-turbo'', ''LINE ''),
       (''gpt-3.5-turbo'',
          test_case_prompt ''{}'' ''- core.py (parser)'' [] [] ''{}'' ''diff'')])"
proof -
  let ?self = "\<lparr>github_token = Some ''tok'', client = Some demo_client\<rparr>"
  let ?info = "[''repo_owner'' \<mapsto> ''sympy'', ''repo_name'' \<mapsto> ''sympy'']"
  let ?prompt = "test_case_prompt ''{}'' ''- core.py (parser)'' [] [] ''{}'' ''diff''"
  have t: "target_functions [] = []" by (simp add: target_functions_def)
  have e: "extract_top_files ''- core.py (parser)'' = [''core.py'']"
    by (simp add: extract_top_files_def file_path_of_def strip_def strip_chars_def isspace_def)
  have p: "?prompt \<noteq> ''FILE''" by (simp add: test_case_prompt_def)
  have "process_task demo_analyzer ?self demo_task [(''gpt-4'', ''earlier'')] =
     (Inr \<lparr>repository_info = ?info,
           file_level_analysis = ''- core.py (parser)'',
           function_class_analysis = [],
           line_level_analysis = [],
           test_case = []\<rparr>,
      [(''gpt-4'', ''earlier'')] @
      [(''gpt-3.5-turbo'', ''FILE''), (''gpt-3.5-turbo'', ''FUNCTION core.py''),
       (''gpt-3.5-turbo'', ''LINE ''), (''gpt-3.5-turbo'', ?prompt)])"
    by (rule process_task_empty_candidates [where c = demo_client and repo_owner = "''sympy''"
          and repo_name = "''sympy''" and issue = "''crash''" and patch = "''diff''"])
       (simp_all add: t e p demo_analyzer_def demo_task_def demo_client_def get_default_def)
  then show ?thesis by (simp add: t demo_client_def)
qed

end
